theory Spec2Isabelle
  imports Main
begin

section \<open>Python values, exceptions and truthiness\<close>

text \<open>
  The values that flow through \<^verbatim>\<open>django_cached_field/__init__.py\<close>: \<^verbatim>\<open>None\<close>,
  booleans, integers, strings, absolute timestamps (\<^verbatim>\<open>datetime\<close>, as a point on an
  integer time line), relative offsets (\<^verbatim>\<open>timedelta\<close>, as an integer duration) and
  dictionaries with string keys (the Celery keyword arguments).
\<close>

datatype pyval =
    PNone
  | PBool bool
  | PInt int
  | PStr string
  | PDatetime int
  | PDelta int
  | PDict "(string \<times> pyval) list"

text \<open>
  The exceptions of the module's paths: a missing attribute (\<^verbatim>\<open>getattr\<close> with no
  default), an empty query result indexed at 0, an operand of the wrong type, and whatever
  the user's calculation method raises.
\<close>

datatype exn = AttributeError | IndexError | TypeError | Raised string

text \<open>Python's truth value of an object, as \<^verbatim>\<open>if x\<close>, \<^verbatim>\<open>not x\<close> and \<^verbatim>\<open>x or y\<close> test it.\<close>

fun truthy :: "pyval \<Rightarrow> bool" where
  "truthy PNone = False"
| "truthy (PBool b) = b"
| "truthy (PInt n) = (n \<noteq> 0)"
| "truthy (PStr s) = (s \<noteq> [])"
| "truthy (PDatetime t) = True"
| "truthy (PDelta d) = (d \<noteq> 0)"
| "truthy (PDict kvs) = (kvs \<noteq> [])"

text \<open>\<^verbatim>\<open>isinstance(x, datetime)\<close>.\<close>

fun is_datetime :: "pyval \<Rightarrow> bool" where
  "is_datetime (PDatetime t) = True"
| "is_datetime v = False"

text \<open>\<^verbatim>\<open>now() + x\<close>: defined for a \<^verbatim>\<open>timedelta\<close>, a \<^verbatim>\<open>TypeError\<close> otherwise.\<close>

fun datetime_add :: "int \<Rightarrow> pyval \<Rightarrow> exn + pyval" where
  "datetime_add t (PDelta d) = Inr (PDatetime (t + d))"
| "datetime_add t v = Inl TypeError"

text \<open>\<^verbatim>\<open>x < now()\<close>: defined for a \<^verbatim>\<open>datetime\<close>, a \<^verbatim>\<open>TypeError\<close> otherwise.\<close>

fun datetime_lt :: "pyval \<Rightarrow> int \<Rightarrow> exn + bool" where
  "datetime_lt (PDatetime t) n = Inr (t < n)"
| "datetime_lt v n = Inl TypeError"

section \<open>Process-wide settings and the clock\<close>

text \<open>
  \<^verbatim>\<open>django.conf.settings\<close>, restricted to the three names the module consults. A name
  that the project does not define is \<open>None\<close> here: \<^verbatim>\<open>hasattr\<close> is false for it and
  \<^verbatim>\<open>getattr(settings, name)\<close> raises \<^verbatim>\<open>AttributeError\<close>. A name defined as Python's
  \<^verbatim>\<open>None\<close> is \<open>Some PNone\<close>.
\<close>

record django_settings =
  CACHED_FIELD_DEFAULT_EXPIRATION :: "pyval option"
  CACHED_FIELD_EAGER_RECALCULATION :: "pyval option"
  CACHED_FIELD_CELERY_ASYNC_KWARGS :: "pyval option"

text \<open>\<^verbatim>\<open>getattr(settings, name)\<close>, with no default.\<close>

definition getattr_settings :: "pyval option \<Rightarrow> exn + pyval" where
  "getattr_settings a = (case a of None \<Rightarrow> Inl AttributeError | Some v \<Rightarrow> Inr v)"

text \<open>
  The environment of one operation: the settings and the reading of \<^verbatim>\<open>timezone.now()\<close>.
  The clock is read as one value for the duration of an operation.
\<close>

record env =
  settings :: django_settings
  now :: int

section \<open>The cached field's configuration\<close>

record cached_field =
  name :: string
  temporal_triggers :: pyval
  celery_async_kwargs :: pyval
  db_index_on_temporal_trigger_field :: bool
  db_index_on_recalculation_needed_field :: bool
  expiration_field_name' :: "string option"
  calculation_method_name' :: "string option"
  cached_field_name' :: "string option"
  recalculation_needed_field_name' :: "string option"

text \<open>
  \<^verbatim>\<open>CachedFieldMixin.__init__\<close> (lines 151-172). The two fallbacks are Python's \<^verbatim>\<open>or\<close>:
  the right operand, a \<^verbatim>\<open>getattr\<close> with no default, is evaluated only when the left one
  is falsy. An override name is stored only when it is truthy. The attribute name is
  bound later, by \<^verbatim>\<open>contribute_to_class\<close>; it is a parameter here.
\<close>

definition CachedFieldMixin_init ::
  "django_settings \<Rightarrow> string \<Rightarrow> string option \<Rightarrow> string option \<Rightarrow> string option \<Rightarrow> pyval \<Rightarrow>
   bool \<Rightarrow> bool \<Rightarrow> string option \<Rightarrow> pyval \<Rightarrow> exn + cached_field" where
  "CachedFieldMixin_init conf nm calculation_method_name cached_field_name
     recalculation_needed_field_name temporal_triggers_arg
     db_index_on_temporal_trigger_field_arg db_index_on_recalculation_needed_field_arg
     expiration_field_name celery_async_kwargs_arg =
   (case (if truthy temporal_triggers_arg then Inr temporal_triggers_arg
          else getattr_settings (CACHED_FIELD_DEFAULT_EXPIRATION conf)) of
      Inl x \<Rightarrow> Inl x
    | Inr tt \<Rightarrow>
       (case (if truthy celery_async_kwargs_arg then Inr celery_async_kwargs_arg
              else getattr_settings (CACHED_FIELD_CELERY_ASYNC_KWARGS conf)) of
          Inl x \<Rightarrow> Inl x
        | Inr ck \<Rightarrow>
           Inr \<lparr> name = nm,
                 temporal_triggers = tt,
                 celery_async_kwargs = ck,
                 db_index_on_temporal_trigger_field = db_index_on_temporal_trigger_field_arg,
                 db_index_on_recalculation_needed_field =
                   db_index_on_recalculation_needed_field_arg,
                 expiration_field_name' =
                   (if expiration_field_name \<in> {None, Some []} then None
                    else expiration_field_name),
                 calculation_method_name' =
                   (if calculation_method_name \<in> {None, Some []} then None
                    else calculation_method_name),
                 cached_field_name' =
                   (if cached_field_name \<in> {None, Some []} then None else cached_field_name),
                 recalculation_needed_field_name' =
                   (if recalculation_needed_field_name \<in> {None, Some []} then None
                    else recalculation_needed_field_name) \<rparr>))"

text \<open>The four name properties (lines 205-223): the override, else the default name.\<close>

definition cached_field_name :: "cached_field \<Rightarrow> string" where
  "cached_field_name f =
     (case cached_field_name' f of Some s \<Rightarrow> s | None \<Rightarrow> ''cached_'' @ name f)"

definition recalculation_needed_field_name :: "cached_field \<Rightarrow> string" where
  "recalculation_needed_field_name f =
     (case recalculation_needed_field_name' f of Some s \<Rightarrow> s
      | None \<Rightarrow> name f @ ''_recalculation_needed'')"

definition calculation_method_name :: "cached_field \<Rightarrow> string" where
  "calculation_method_name f =
     (case calculation_method_name' f of Some s \<Rightarrow> s | None \<Rightarrow> ''calculate_'' @ name f)"

definition expiration_field_name :: "cached_field \<Rightarrow> string" where
  "expiration_field_name f =
     (case expiration_field_name' f of Some s \<Rightarrow> s | None \<Rightarrow> name f @ ''_expires_after'')"

section \<open>Records, storage and observable effects\<close>

text \<open>
  The storage slots of one cached attribute on a record, and the record's other
  attributes. \<open>Cached\<close>, \<open>Flag\<close> and \<open>Expires\<close> stand for the attributes named
  \<^verbatim>\<open>field.cached_field_name\<close>, \<^verbatim>\<open>field.recalculation_needed_field_name\<close> and
  \<^verbatim>\<open>field.expiration_field_name\<close>.
\<close>

datatype slot = Cached | Flag | Expires | Other string

text \<open>
  A model instance in memory: its primary key, its attributes, and what
  \<^verbatim>\<open>trigger_cache_recalculation\<close> reads of \<^verbatim>\<open>self._meta\<close>.
\<close>

record model_obj =
  pk :: int
  attrs :: "slot \<Rightarrow> pyval"
  app_label :: string
  object_name :: string
  proxy :: bool
  proxy_for_object_name :: string

text \<open>
  What an operation does outside the instance, in order: a query that reads a slot of a
  row, an \<^verbatim>\<open>update(**kwargs)\<close> of a row, a call of the calculation method, a call of
  \<^verbatim>\<open>trigger_cache_recalculation\<close>, and the job handed to
  \<^verbatim>\<open>offload_cache_recalculation.delay\<close>.
\<close>

datatype event =
    DbRead int slot
  | DbUpdate int "(slot \<times> pyval) list"
  | CalcCalled
  | TriggerCalled
  | Delay string string int "(string \<times> pyval) list"

text \<open>
  The state an operation runs in: the instance \<^verbatim>\<open>self\<close>, the table of its model (rows
  by primary key) and the trace of effects so far.
\<close>

record world =
  self :: model_obj
  db :: "int \<Rightarrow> (slot \<Rightarrow> pyval) option"
  trace :: "event list"

text \<open>A keyword-argument dictionary: \<^verbatim>\<open>d[k] = v\<close> replaces the entry of \<open>k\<close> or appends one.\<close>

fun dict_set :: "'k \<Rightarrow> 'v \<Rightarrow> ('k \<times> 'v) list \<Rightarrow> ('k \<times> 'v) list" where
  "dict_set k v [] = [(k, v)]"
| "dict_set k v ((k', v') # kvs) =
     (if k = k' then (k, v) # kvs else (k', v') # dict_set k v kvs)"

fun apply_kwargs :: "(slot \<times> pyval) list \<Rightarrow> (slot \<Rightarrow> pyval) \<Rightarrow> (slot \<Rightarrow> pyval)" where
  "apply_kwargs [] row = row"
| "apply_kwargs ((k, v) # kvs) row = apply_kwargs kvs (row(k := v))"

text \<open>
  \<^verbatim>\<open>type(self).objects.filter(pk=k).update(**kwargs)\<close>: the row of key \<open>k\<close>, when there
  is one, takes the given values; no other row changes. The call is traced also when
  \<open>kwargs\<close> is empty.
\<close>

definition queryset_update :: "int \<Rightarrow> (slot \<times> pyval) list \<Rightarrow> world \<Rightarrow> world" where
  "queryset_update k kwargs w =
     w\<lparr> db := (case db w k of None \<Rightarrow> db w
                | Some row \<Rightarrow> (db w)(k \<mapsto> apply_kwargs kwargs row)),
        trace := trace w @ [DbUpdate k kwargs] \<rparr>"

text \<open>\<^verbatim>\<open>setattr(self, slot_name, v)\<close>.\<close>

definition setattr :: "slot \<Rightarrow> pyval \<Rightarrow> world \<Rightarrow> world" where
  "setattr k v w = w\<lparr> self := (self w)\<lparr> attrs := (attrs (self w))(k := v) \<rparr> \<rparr>"

section \<open>The operations\<close>

text \<open>\<^verbatim>\<open>_set_FIELD\<close> (lines 100-101).\<close>

definition set_FIELD :: "pyval \<Rightarrow> world \<Rightarrow> world" where
  "set_FIELD val w = setattr Cached val w"

text \<open>
  \<^verbatim>\<open>trigger_cache_recalculation\<close> (lines 104-109). \<^verbatim>\<open>**field.celery_async_kwargs\<close>
  needs a mapping.
\<close>

definition trigger_cache_recalculation :: "cached_field \<Rightarrow> world \<Rightarrow> (exn + unit) \<times> world" where
  "trigger_cache_recalculation fld w =
     (let w1 = w\<lparr> trace := trace w @ [TriggerCalled] \<rparr>;
          obj_name = (if proxy (self w1) then proxy_for_object_name (self w1)
                      else object_name (self w1))
      in case celery_async_kwargs fld of
           PDict kvs \<Rightarrow>
             (Inr (), w1\<lparr> trace := trace w1 @
                        [Delay (app_label (self w1)) obj_name (pk (self w1)) kvs] \<rparr>)
         | _ \<Rightarrow> (Inl TypeError, w1))"

text \<open>
  Lines 21-24: an explicit \<open>and_recalculate\<close> wins; the default argument \<^verbatim>\<open>None\<close>
  becomes the setting when the project defines it (\<^verbatim>\<open>hasattr\<close>), else \<^verbatim>\<open>True\<close>.
\<close>

definition resolve_and_recalculate :: "env \<Rightarrow> pyval \<Rightarrow> pyval" where
  "resolve_and_recalculate e and_recalculate =
     (if and_recalculate = PNone
      then (case CACHED_FIELD_EAGER_RECALCULATION (settings e) of
              Some v \<Rightarrow> v | None \<Rightarrow> PBool True)
      else and_recalculate)"

text \<open>
  \<^verbatim>\<open>_flag_FIELD_as_stale\<close> (lines 12-37). \<open>and_recalculate = PNone\<close> is the default
  argument. The flag is read from the table, not from the instance; \<^verbatim>\<open>[0]\<close> on the
  empty result raises \<^verbatim>\<open>IndexError\<close>.
\<close>

definition flag_FIELD_as_stale ::
  "env \<Rightarrow> cached_field \<Rightarrow> pyval \<Rightarrow> bool \<Rightarrow> world \<Rightarrow> (exn + (slot \<times> pyval) list) \<times> world" where
  "flag_FIELD_as_stale e fld and_recalculate commit w =
     (let and_recalculate = resolve_and_recalculate e and_recalculate;
          w1 = w\<lparr> trace := trace w @ [DbRead (pk (self w)) Flag] \<rparr>
      in case db w1 (pk (self w1)) of
           None \<Rightarrow> (Inl IndexError, w1)
         | Some row \<Rightarrow>
            (let already_flagged_for_recalculation = row Flag;
                 w2 = (if truthy already_flagged_for_recalculation then w1
                       else setattr Flag (PBool True) w1);
                 kwargs = (if truthy already_flagged_for_recalculation then []
                           else [(Flag, PBool True)])
             in if commit then
                  (let w3 = queryset_update (pk (self w2)) kwargs w2
                   in if truthy and_recalculate then
                        (case trigger_cache_recalculation fld w3 of
                           (Inl x, w4) \<Rightarrow> (Inl x, w4)
                         | (Inr u, w4) \<Rightarrow> (Inr kwargs, w4))
                      else (Inr kwargs, w3))
                else (Inr kwargs, w2)))"

text \<open>
  Lines 48-50 and, again, lines 77-79: the explicit expiration or else the setting
  (Python's \<^verbatim>\<open>or\<close>: a falsy explicit value, \<^verbatim>\<open>None\<close> or a zero offset, gives way to
  the setting), then made absolute against the clock unless it is \<^verbatim>\<open>None\<close> or already
  a \<^verbatim>\<open>datetime\<close>.
\<close>

definition resolve_expiration :: "env \<Rightarrow> pyval \<Rightarrow> exn + pyval" where
  "resolve_expiration e expiration =
     (case (if truthy expiration then Inr expiration
            else getattr_settings (CACHED_FIELD_DEFAULT_EXPIRATION (settings e))) of
        Inl x \<Rightarrow> Inl x
      | Inr expiration \<Rightarrow>
          (if expiration \<noteq> PNone \<and> \<not> is_datetime expiration
           then datetime_add (now e) expiration
           else Inr expiration))"

text \<open>\<^verbatim>\<open>_expire_FIELD_after\<close> (lines 40-52).\<close>

definition expire_FIELD_after ::
  "env \<Rightarrow> cached_field \<Rightarrow> pyval \<Rightarrow> world \<Rightarrow> (exn + unit) \<times> world" where
  "expire_FIELD_after e fld expiration w =
     (case resolve_expiration e expiration of
        Inl x \<Rightarrow> (Inl x, w)
      | Inr expiration \<Rightarrow>
          (Inr (), queryset_update (pk (self w)) [(Expires, expiration)]
                     (setattr Expires expiration w)))"

text \<open>Line 76: \<^verbatim>\<open>not expires or expires < now()\<close>.\<close>

definition expires_check :: "env \<Rightarrow> pyval \<Rightarrow> exn + bool" where
  "expires_check e expires =
     (if \<not> truthy expires then Inr True else datetime_lt expires (now e))"

text \<open>
  Lines 74-81 of \<^verbatim>\<open>_recalculate_FIELD\<close>: with temporal triggers on and the instance's
  expiration falsy or before the clock, a new expiration is resolved, assigned to the
  instance and entered in \<open>kwargs\<close>.
\<close>

definition recalculate_expiration ::
  "env \<Rightarrow> cached_field \<Rightarrow> pyval \<Rightarrow> (slot \<times> pyval) list \<Rightarrow> world \<Rightarrow>
   (exn + (slot \<times> pyval) list) \<times> world" where
  "recalculate_expiration e fld expiration kwargs w =
     (if truthy (temporal_triggers fld) then
        (let expires = attrs (self w) Expires
         in case expires_check e expires of
              Inl x \<Rightarrow> (Inl x, w)
            | Inr c \<Rightarrow>
               (if c then
                  (case resolve_expiration e expiration of
                     Inl x \<Rightarrow> (Inl x, w)
                   | Inr expiration \<Rightarrow>
                       (Inr (dict_set Expires expiration kwargs),
                        setattr Expires expiration w))
                else (Inr kwargs, w)))
      else (Inr kwargs, w))"

text \<open>
  \<^verbatim>\<open>_recalculate_FIELD\<close> (lines 55-85). \<open>calc\<close> is the record type's calculation
  method, \<^verbatim>\<open>getattr(self, field.calculation_method_name)()\<close>: it reads the instance and
  returns a value or raises. With \<open>commit\<close> the function returns Python's \<^verbatim>\<open>None\<close>
  (\<open>Inr None\<close>); without, the pending \<open>kwargs\<close>.
\<close>

definition recalculate_FIELD ::
  "env \<Rightarrow> cached_field \<Rightarrow> (model_obj \<Rightarrow> exn + pyval) \<Rightarrow> pyval \<Rightarrow> bool \<Rightarrow> world \<Rightarrow>
   (exn + (slot \<times> pyval) list option) \<times> world" where
  "recalculate_FIELD e fld calc expiration commit w =
     (let w1 = (if commit then queryset_update (pk (self w)) [(Flag, PBool False)] w else w);
          w2 = w1\<lparr> trace := trace w1 @ [CalcCalled] \<rparr>
      in case calc (self w2) of
           Inl x \<Rightarrow> (Inl x, w2)
         | Inr val \<Rightarrow>
            (let w3 = set_FIELD val w2;
                 w4 = setattr Flag (PBool False) w3;
                 kwargs = [(Cached, val)];
                 kwargs = (if \<not> commit then dict_set Flag (PBool False) kwargs else kwargs)
             in case recalculate_expiration e fld expiration kwargs w4 of
                  (Inl x, w5) \<Rightarrow> (Inl x, w5)
                | (Inr kwargs, w5) \<Rightarrow>
                    (if commit then (Inr None, queryset_update (pk (self w5)) kwargs w5)
                     else (Inr (Some kwargs), w5))))"

text \<open>
  \<^verbatim>\<open>_get_FIELD\<close> (lines 88-97). \<^verbatim>\<open>flag or (expiration is not None and expiration <
  now())\<close> keeps a truthy flag as it is and does not read the clock then;
  \<^verbatim>\<open>flag is True\<close> holds for the boolean \<^verbatim>\<open>True\<close> only.
\<close>

definition get_FIELD ::
  "env \<Rightarrow> cached_field \<Rightarrow> (model_obj \<Rightarrow> exn + pyval) \<Rightarrow> world \<Rightarrow> (exn + pyval) \<times> world" where
  "get_FIELD e fld calc w =
     (let val = attrs (self w) Cached;
          flag = attrs (self w) Flag
      in case (if truthy (temporal_triggers fld) then
                 (let expiration = attrs (self w) Expires
                  in if truthy flag then Inr flag
                     else if expiration = PNone then Inr (PBool False)
                     else (case datetime_lt expiration (now e) of
                             Inl x \<Rightarrow> Inl x | Inr b \<Rightarrow> Inr (PBool b)))
               else Inr flag) of
           Inl x \<Rightarrow> (Inl x, w)
         | Inr flag \<Rightarrow>
            (if flag = PBool True then
               (case recalculate_FIELD e fld calc PNone True w of
                  (Inl x, w') \<Rightarrow> (Inl x, w')
                | (Inr r, w') \<Rightarrow> (Inr (attrs (self w') Cached), w'))
             else (Inr val, w)))"

section \<open>Observations and sample data\<close>

text \<open>
  The values an expiration may take where the module documents it: \<^verbatim>\<open>None\<close>, a
  \<^verbatim>\<open>datetime\<close>, or a relative offset.
\<close>

fun is_expiration :: "pyval \<Rightarrow> bool" where
  "is_expiration PNone = True"
| "is_expiration (PDatetime t) = True"
| "is_expiration (PDelta d) = True"
| "is_expiration v = False"

text \<open>Counters and filters over the trace.\<close>

definition calc_calls :: "world \<Rightarrow> nat" where
  "calc_calls w = length (filter (\<lambda>ev. ev = CalcCalled) (trace w))"

definition trigger_calls :: "world \<Rightarrow> nat" where
  "trigger_calls w = length (filter (\<lambda>ev. ev = TriggerCalled) (trace w))"

fun is_Delay :: "event \<Rightarrow> bool" where
  "is_Delay (Delay a n k kvs) = True"
| "is_Delay ev = False"

fun is_DbUpdate :: "event \<Rightarrow> bool" where
  "is_DbUpdate (DbUpdate k kw) = True"
| "is_DbUpdate ev = False"

fun writes_flag_true :: "event \<Rightarrow> bool" where
  "writes_flag_true (DbUpdate k kw) = ((Flag, PBool True) \<in> set kw)"
| "writes_flag_true ev = False"

text \<open>The events an operation added, from the state before and the state after.\<close>

definition events_since :: "world \<Rightarrow> world \<Rightarrow> event list" where
  "events_since w w' = drop (length (trace w)) (trace w')"

text \<open>
  A project with a default expiration of 3600 and Celery arguments, read at time 1000; a
  field \<open>total\<close>; an invoice with primary key 7 whose row equals the instance; and a
  calculation method that doubles the invoice's price and raises when the price is not
  an integer.
\<close>

definition demo_settings :: django_settings where
  "demo_settings =
     \<lparr> CACHED_FIELD_DEFAULT_EXPIRATION = Some (PDelta 3600),
       CACHED_FIELD_EAGER_RECALCULATION = None,
       CACHED_FIELD_CELERY_ASYNC_KWARGS = Some (PDict [(''countdown'', PInt 5)]) \<rparr>"

definition demo_env :: env where
  "demo_env = \<lparr> settings = demo_settings, now = 1000 \<rparr>"

definition demo_field :: "pyval \<Rightarrow> cached_field" where
  "demo_field tt =
     \<lparr> name = ''total'', temporal_triggers = tt,
       celery_async_kwargs = PDict [(''countdown'', PInt 5)],
       db_index_on_temporal_trigger_field = False,
       db_index_on_recalculation_needed_field = False,
       expiration_field_name' = None, calculation_method_name' = None,
       cached_field_name' = None, recalculation_needed_field_name' = None \<rparr>"

definition demo_row :: "pyval \<Rightarrow> pyval \<Rightarrow> pyval \<Rightarrow> pyval \<Rightarrow> slot \<Rightarrow> pyval" where
  "demo_row price c f x =
     (\<lambda>s. PNone)(Other ''price'' := price, Cached := c, Flag := f, Expires := x)"

definition demo_world :: "pyval \<Rightarrow> pyval \<Rightarrow> pyval \<Rightarrow> pyval \<Rightarrow> world" where
  "demo_world price c f x =
     \<lparr> self = \<lparr> pk = 7, attrs = demo_row price c f x, app_label = ''shop'',
                 object_name = ''Invoice'', proxy = False, proxy_for_object_name = [] \<rparr>,
       db = Map.empty(7 \<mapsto> demo_row price c f x),
       trace = [] \<rparr>"

definition demo_calc :: "model_obj \<Rightarrow> exn + pyval" where
  "demo_calc obj =
     (case attrs obj (Other ''price'') of
        PInt n \<Rightarrow> Inr (PInt (2 * n))
      | _ \<Rightarrow> Inl (Raised ''ValueError''))"

lemmas demo_defs = demo_settings_def demo_env_def demo_field_def demo_row_def demo_world_def
  demo_calc_def

section \<open>Basic facts about the state\<close>

lemma self_queryset_update [simp]: "self (queryset_update k kw w) = self w"
  by (simp add: queryset_update_def)

lemma trace_queryset_update [simp]:
  "trace (queryset_update k kw w) = trace w @ [DbUpdate k kw]"
  by (simp add: queryset_update_def)

lemma db_queryset_update [simp]:
  "db (queryset_update k kw w) =
     (case db w k of None \<Rightarrow> db w | Some row \<Rightarrow> (db w)(k \<mapsto> apply_kwargs kw row))"
  by (simp add: queryset_update_def)

lemma self_setattr [simp]:
  "self (setattr k v w) = (self w)\<lparr> attrs := (attrs (self w))(k := v) \<rparr>"
  by (simp add: setattr_def)

lemma db_setattr [simp]: "db (setattr k v w) = db w"
  by (simp add: setattr_def)

lemma trace_setattr [simp]: "trace (setattr k v w) = trace w"
  by (simp add: setattr_def)

lemma expires_check_None [simp]: "expires_check e PNone = Inr True"
  by (simp add: expires_check_def)

lemma expires_check_Datetime [simp]: "expires_check e (PDatetime t) = Inr (t < now e)"
  by (simp add: expires_check_def)

section \<open>Resolving an expiration\<close>

text \<open>
  The value resolution starts from is the explicit argument when that is truthy, else the
  setting; an offset is added to the clock, \<^verbatim>\<open>None\<close> and a \<^verbatim>\<open>datetime\<close> pass unchanged.
\<close>

lemma resolve_expiration_chosen:
  assumes "truthy expiration \<Longrightarrow> chosen = expiration"
    and "\<not> truthy expiration \<Longrightarrow> CACHED_FIELD_DEFAULT_EXPIRATION (settings e) = Some chosen"
    and "is_expiration chosen"
  shows "resolve_expiration e expiration =
           Inr (case chosen of PDelta d \<Rightarrow> PDatetime (now e + d) | _ \<Rightarrow> chosen)"
  using assms
  by (cases chosen) (auto simp: resolve_expiration_def getattr_settings_def)

text \<open>With no truthy argument and the setting not defined, resolution raises.\<close>

lemma resolve_expiration_unset:
  assumes "\<not> truthy expiration"
    and "CACHED_FIELD_DEFAULT_EXPIRATION (settings e) = None"
  shows "resolve_expiration e expiration = Inl AttributeError"
  using assms by (simp add: resolve_expiration_def getattr_settings_def)

section \<open>The outcomes of a recalculation\<close>

text \<open>The calculation returns and a new expiration is due and resolves.\<close>

lemma recalculate_new_expiration:
  assumes "calc (self w) = Inr V"
    and "truthy (temporal_triggers fld)"
    and "expires_check e (attrs (self w) Expires) = Inr True"
    and "resolve_expiration e expiration = Inr x"
  shows "recalculate_FIELD e fld calc expiration commit w =
    (if commit then
       (Inr None,
        w\<lparr> self := (self w)\<lparr> attrs := (attrs (self w))
                        (Cached := V, Flag := PBool False, Expires := x) \<rparr>,
           db := (case db w (pk (self w)) of None \<Rightarrow> db w
                  | Some row \<Rightarrow> (db w)(pk (self w) \<mapsto>
                       row(Flag := PBool False, Cached := V, Expires := x))),
           trace := trace w @ [DbUpdate (pk (self w)) [(Flag, PBool False)], CalcCalled,
                      DbUpdate (pk (self w)) [(Cached, V), (Expires, x)]] \<rparr>)
     else
       (Inr (Some [(Cached, V), (Flag, PBool False), (Expires, x)]),
        w\<lparr> self := (self w)\<lparr> attrs := (attrs (self w))
                        (Cached := V, Flag := PBool False, Expires := x) \<rparr>,
           trace := trace w @ [CalcCalled] \<rparr>))"
  using assms
  by (cases "db w (pk (self w))")
     (simp_all add: recalculate_FIELD_def recalculate_expiration_def set_FIELD_def Let_def
        queryset_update_def setattr_def)

text \<open>The calculation returns and the expiration stays: triggers off, or not yet due.\<close>

lemma recalculate_keep_expiration:
  assumes "calc (self w) = Inr V"
    and "truthy (temporal_triggers fld) \<Longrightarrow>
           expires_check e (attrs (self w) Expires) = Inr False"
  shows "recalculate_FIELD e fld calc expiration commit w =
    (if commit then
       (Inr None,
        w\<lparr> self := (self w)\<lparr> attrs := (attrs (self w))
                        (Cached := V, Flag := PBool False) \<rparr>,
           db := (case db w (pk (self w)) of None \<Rightarrow> db w
                  | Some row \<Rightarrow> (db w)(pk (self w) \<mapsto>
                       row(Flag := PBool False, Cached := V))),
           trace := trace w @ [DbUpdate (pk (self w)) [(Flag, PBool False)], CalcCalled,
                      DbUpdate (pk (self w)) [(Cached, V)]] \<rparr>)
     else
       (Inr (Some [(Cached, V), (Flag, PBool False)]),
        w\<lparr> self := (self w)\<lparr> attrs := (attrs (self w))
                        (Cached := V, Flag := PBool False) \<rparr>,
           trace := trace w @ [CalcCalled] \<rparr>))"
  using assms
  by (cases "db w (pk (self w))"; cases "truthy (temporal_triggers fld)")
     (simp_all add: recalculate_FIELD_def recalculate_expiration_def set_FIELD_def Let_def
        queryset_update_def setattr_def)

text \<open>
  The calculation returns, a new expiration is due and its resolution raises: the value
  and the cleared flag are on the instance, nothing but the flag is in the table.
\<close>

lemma recalculate_resolution_fails:
  assumes "calc (self w) = Inr V"
    and "truthy (temporal_triggers fld)"
    and "expires_check e (attrs (self w) Expires) = Inr True"
    and "resolve_expiration e expiration = Inl err"
  shows "recalculate_FIELD e fld calc expiration commit w =
    (Inl err,
     (if commit then queryset_update (pk (self w)) [(Flag, PBool False)] w else w)
       \<lparr> self := (self w)\<lparr> attrs := (attrs (self w))(Cached := V, Flag := PBool False) \<rparr>,
         trace := trace (if commit then queryset_update (pk (self w)) [(Flag, PBool False)] w
                         else w) @ [CalcCalled] \<rparr>)"
  using assms
  by (simp add: recalculate_FIELD_def recalculate_expiration_def set_FIELD_def Let_def
        setattr_def)

text \<open>The comparison of the instance's expiration with the clock raises.\<close>

lemma recalculate_check_fails:
  assumes "calc (self w) = Inr V"
    and "truthy (temporal_triggers fld)"
    and "expires_check e (attrs (self w) Expires) = Inl err"
  shows "recalculate_FIELD e fld calc expiration commit w =
    (Inl err,
     (if commit then queryset_update (pk (self w)) [(Flag, PBool False)] w else w)
       \<lparr> self := (self w)\<lparr> attrs := (attrs (self w))(Cached := V, Flag := PBool False) \<rparr>,
         trace := trace (if commit then queryset_update (pk (self w)) [(Flag, PBool False)] w
                         else w) @ [CalcCalled] \<rparr>)"
  using assms
  by (simp add: recalculate_FIELD_def recalculate_expiration_def set_FIELD_def Let_def
        setattr_def)

text \<open>The calculation raises.\<close>

lemma recalculate_calc_raises:
  assumes "calc (self w) = Inl err"
  shows "recalculate_FIELD e fld calc expiration commit w =
    (Inl err,
     (if commit then queryset_update (pk (self w)) [(Flag, PBool False)] w else w)
       \<lparr> trace := trace (if commit then queryset_update (pk (self w)) [(Flag, PBool False)] w
                         else w) @ [CalcCalled] \<rparr>)"
  using assms
  by (simp add: recalculate_FIELD_def Let_def)

text \<open>The four outcomes of a recalculation whose calculation returns.\<close>

lemma recalculate_outcomes:
  assumes "calc (self w) = Inr V"
  obtains
    (keep) "truthy (temporal_triggers fld) \<Longrightarrow>
              expires_check e (attrs (self w) Expires) = Inr False"
  | (new) x where "truthy (temporal_triggers fld)"
      "expires_check e (attrs (self w) Expires) = Inr True"
      "resolve_expiration e expiration = Inr x"
  | (unresolved) err where "truthy (temporal_triggers fld)"
      "expires_check e (attrs (self w) Expires) = Inr True"
      "resolve_expiration e expiration = Inl err"
  | (ill_typed) err where "truthy (temporal_triggers fld)"
      "expires_check e (attrs (self w) Expires) = Inl err"
proof (cases "truthy (temporal_triggers fld)")
  case False
  then show ?thesis using keep by simp
next
  case tt: True
  show ?thesis
  proof (cases "expires_check e (attrs (self w) Expires)")
    case (Inl err)
    then show ?thesis using ill_typed tt by simp
  next
    case (Inr c)
    show ?thesis
    proof (cases c)
      case False
      then show ?thesis using keep Inr by simp
    next
      case True
      then show ?thesis
        using new unresolved tt Inr by (cases "resolve_expiration e expiration") simp_all
    qed
  qed
qed

text \<open>Every recalculation calls the calculation method exactly once.\<close>

lemma recalculate_calc_calls:
  "calc_calls (snd (recalculate_FIELD e fld calc expiration commit w)) = calc_calls w + 1"
proof (cases "calc (self w)")
  case (Inl err)
  then show ?thesis
    by (simp add: recalculate_calc_raises [where calc=calc and w=w, OF Inl] calc_calls_def)
next
  case (Inr V)
  show ?thesis
  proof (cases rule: recalculate_outcomes [where calc=calc and w=w and fld=fld and e=e
          and expiration=expiration, OF Inr, case_names keep new unresolved ill_typed])
    case keep
    show ?thesis
      by (simp add: recalculate_keep_expiration
            [where calc=calc and w=w and expiration=expiration, OF Inr keep] calc_calls_def)
  next
    case (new x)
    show ?thesis
      by (simp add: recalculate_new_expiration [where calc=calc and w=w, OF Inr new]
            calc_calls_def)
  next
    case (unresolved err)
    show ?thesis
      by (simp add: recalculate_resolution_fails [where calc=calc and w=w, OF Inr unresolved]
            calc_calls_def)
  next
    case (ill_typed err)
    show ?thesis
      by (simp add: recalculate_check_fails
            [where calc=calc and w=w and expiration=expiration, OF Inr ill_typed]
            calc_calls_def)
  qed
qed

text \<open>No update of a recalculation writes the flag \<^verbatim>\<open>True\<close>.\<close>

lemma recalculate_no_flag_true_write:
  "list_all (\<lambda>ev. \<not> writes_flag_true ev)
     (events_since w (snd (recalculate_FIELD e fld calc expiration commit w)))"
proof (cases "calc (self w)")
  case (Inl err)
  then show ?thesis
    by (simp add: recalculate_calc_raises [where calc=calc and w=w, OF Inl] events_since_def)
next
  case (Inr V)
  show ?thesis
  proof (cases rule: recalculate_outcomes [where calc=calc and w=w and fld=fld and e=e
          and expiration=expiration, OF Inr, case_names keep new unresolved ill_typed])
    case keep
    show ?thesis
      by (simp add: recalculate_keep_expiration
            [where calc=calc and w=w and expiration=expiration, OF Inr keep] events_since_def)
  next
    case (new x)
    show ?thesis
      by (simp add: recalculate_new_expiration [where calc=calc and w=w, OF Inr new]
            events_since_def)
  next
    case (unresolved err)
    show ?thesis
      by (simp add: recalculate_resolution_fails [where calc=calc and w=w, OF Inr unresolved]
            events_since_def)
  next
    case (ill_typed err)
    show ?thesis
      by (simp add: recalculate_check_fails
            [where calc=calc and w=w and expiration=expiration, OF Inr ill_typed]
            events_since_def)
  qed
qed


text \<open>A recalculation without commit never touches the table.\<close>

lemma recalculate_uncommitted_no_update:
  "db (snd (recalculate_FIELD e fld calc expiration False w)) = db w \<and>
   filter is_DbUpdate
     (events_since w (snd (recalculate_FIELD e fld calc expiration False w))) = []"
proof (cases "calc (self w)")
  case (Inl err)
  then show ?thesis
    by (simp add: recalculate_calc_raises [where calc=calc and w=w, OF Inl] events_since_def)
next
  case (Inr V)
  show ?thesis
  proof (cases rule: recalculate_outcomes [where calc=calc and w=w and fld=fld and e=e
          and expiration=expiration, OF Inr, case_names keep new unresolved ill_typed])
    case keep
    show ?thesis
      by (simp add: recalculate_keep_expiration
            [where calc=calc and w=w and commit=False and expiration=expiration, OF Inr keep]
            events_since_def)
  next
    case (new x)
    show ?thesis
      by (simp add: recalculate_new_expiration
            [where calc=calc and w=w and commit=False, OF Inr new] events_since_def)
  next
    case (unresolved err)
    show ?thesis
      by (simp add: recalculate_resolution_fails
            [where calc=calc and w=w and commit=False, OF Inr unresolved] events_since_def)
  next
    case (ill_typed err)
    show ?thesis
      by (simp add: recalculate_check_fails
            [where calc=calc and w=w and commit=False and expiration=expiration,
             OF Inr ill_typed] events_since_def)
  qed
qed

section \<open>When a read recalculates\<close>

lemma get_FIELD_flagged:
  assumes "attrs (self w) Flag = PBool True"
  shows "get_FIELD e fld calc w =
     (case recalculate_FIELD e fld calc PNone True w of
        (Inl x, w') \<Rightarrow> (Inl x, w')
      | (Inr r, w') \<Rightarrow> (Inr (attrs (self w') Cached), w'))"
  using assms by (simp add: get_FIELD_def Let_def)

lemma get_FIELD_expired:
  assumes "truthy (temporal_triggers fld)"
    and "attrs (self w) Flag = PBool False"
    and "attrs (self w) Expires = PDatetime t"
    and "t < now e"
  shows "get_FIELD e fld calc w =
     (case recalculate_FIELD e fld calc PNone True w of
        (Inl x, w') \<Rightarrow> (Inl x, w')
      | (Inr r, w') \<Rightarrow> (Inr (attrs (self w') Cached), w'))"
  using assms by (simp add: get_FIELD_def Let_def)

lemma get_FIELD_after_recalculate:
  "snd (case recalculate_FIELD e fld calc PNone True w of
          (Inl x, w') \<Rightarrow> (Inl x, w')
        | (Inr r, w') \<Rightarrow> (Inr (attrs (self w') Cached), w')) =
   snd (recalculate_FIELD e fld calc PNone True w)"
  by (cases "recalculate_FIELD e fld calc PNone True w")
     (auto split: sum.splits)

section \<open>Flagging as stale\<close>

lemma flag_FIELD_as_stale_stored:
  assumes "db w (pk (self w)) = Some row"
  shows "flag_FIELD_as_stale e fld a commit w =
    (let kwargs = (if truthy (row Flag) then [] else [(Flag, PBool True)]);
         w1 = w\<lparr> trace := trace w @ [DbRead (pk (self w)) Flag] \<rparr>;
         w2 = (if truthy (row Flag) then w1 else setattr Flag (PBool True) w1)
     in if commit then
          (if truthy (resolve_and_recalculate e a) then
             (case trigger_cache_recalculation fld (queryset_update (pk (self w)) kwargs w2) of
                (Inl x, w4) \<Rightarrow> (Inl x, w4)
              | (Inr u, w4) \<Rightarrow> (Inr kwargs, w4))
           else (Inr kwargs, queryset_update (pk (self w)) kwargs w2))
        else (Inr kwargs, w2))"
  using assms
  by (simp add: flag_FIELD_as_stale_def Let_def)

section \<open>Reading a stale attribute\<close>



section \<open>A calculation that raises\<close>

text \<open>
  Claim C2. When the calculation method raises during a committing recalculation, the
  exception reaches the caller; the instance is as before; the table differs from before
  only in the flag of the record's row, now \<^verbatim>\<open>False\<close>; and the only update issued is
  that flag write, before the calculation. The cached value and the expiration are
  neither assigned nor persisted.
\<close>

theorem recalculate_failure_keeps_only_flag_clear:
  assumes "calc (self w) = Inl err"
  shows "recalculate_FIELD e fld calc expiration True w =
    (Inl err,
     w\<lparr> db := (case db w (pk (self w)) of None \<Rightarrow> db w
               | Some row \<Rightarrow> (db w)(pk (self w) \<mapsto> row(Flag := PBool False))),
        trace := trace w @ [DbUpdate (pk (self w)) [(Flag, PBool False)], CalcCalled] \<rparr>)"
  using assms
  by (cases "db w (pk (self w))")
     (simp_all add: recalculate_FIELD_def Let_def queryset_update_def)

text \<open>The invoice without a price: the calculation raises after the flag write.\<close>

theorem recalculate_failure_keeps_only_flag_clear_witness:
  "fst (recalculate_FIELD demo_env (demo_field (PBool False)) demo_calc PNone True
          (demo_world PNone (PInt 3) (PBool True) PNone)) = Inl (Raised ''ValueError'') \<and>
   trace (snd (recalculate_FIELD demo_env (demo_field (PBool False)) demo_calc PNone True
          (demo_world PNone (PInt 3) (PBool True) PNone))) =
     [DbUpdate 7 [(Flag, PBool False)], CalcCalled]"
  using recalculate_failure_keeps_only_flag_clear [of demo_calc
      "demo_world PNone (PInt 3) (PBool True) PNone" "Raised ''ValueError''"
      demo_env "demo_field (PBool False)" PNone]
  by (simp add: demo_defs)

section \<open>Committed and uncommitted recalculation\<close>

text \<open>
  Claim C3. A recalculation without commit leaves the table as it is and issues no
  update, whatever its outcome. When the calculation method returns \<open>V\<close> it returns the
  change set: the cached value \<open>V\<close>, the flag \<^verbatim>\<open>False\<close> and, when temporal triggers are
  on and the instance's expiration is \<^verbatim>\<open>None\<close> or before the clock, the new expiration
  \<open>x\<close>. With commit the function returns \<^verbatim>\<open>None\<close> and its final update holds the same
  entries without the flag, which the first update wrote. Here the instance's expiration
  is \<^verbatim>\<open>None\<close> or a \<^verbatim>\<open>datetime\<close> and a new expiration that is due resolves to \<open>x\<close>.
\<close>

theorem recalculate_uncommitted_returns_changes:
  "db (snd (recalculate_FIELD e fld calc expiration False w)) = db w \<and>
   filter is_DbUpdate
     (events_since w (snd (recalculate_FIELD e fld calc expiration False w))) = [] \<and>
   (calc (self w) = Inr V \<and>
    (truthy (temporal_triggers fld) \<longrightarrow>
       (attrs (self w) Expires = PNone \<or> attrs (self w) Expires = PDatetime t) \<and>
       (attrs (self w) Expires = PNone \<or> t < now e \<longrightarrow>
          resolve_expiration e expiration = Inr x)) \<longrightarrow>
    fst (recalculate_FIELD e fld calc expiration False w) =
      Inr (Some ([(Cached, V), (Flag, PBool False)] @
             (if truthy (temporal_triggers fld) \<and>
                 (attrs (self w) Expires = PNone \<or> t < now e)
              then [(Expires, x)] else []))) \<and>
    events_since w (snd (recalculate_FIELD e fld calc expiration False w)) = [CalcCalled] \<and>
    fst (recalculate_FIELD e fld calc expiration True w) = Inr None \<and>
    events_since w (snd (recalculate_FIELD e fld calc expiration True w)) =
      [DbUpdate (pk (self w)) [(Flag, PBool False)], CalcCalled,
       DbUpdate (pk (self w)) ([(Cached, V)] @
             (if truthy (temporal_triggers fld) \<and>
                 (attrs (self w) Expires = PNone \<or> t < now e)
              then [(Expires, x)] else []))])"
proof (intro conjI impI)
  show "db (snd (recalculate_FIELD e fld calc expiration False w)) = db w"
    and "filter is_DbUpdate
           (events_since w (snd (recalculate_FIELD e fld calc expiration False w))) = []"
    using recalculate_uncommitted_no_update [of e fld calc expiration w] by simp_all
  assume a: "calc (self w) = Inr V \<and>
    (truthy (temporal_triggers fld) \<longrightarrow>
       (attrs (self w) Expires = PNone \<or> attrs (self w) Expires = PDatetime t) \<and>
       (attrs (self w) Expires = PNone \<or> t < now e \<longrightarrow>
          resolve_expiration e expiration = Inr x))"
  then have calc: "calc (self w) = Inr V"
    by simp
  have "fst (recalculate_FIELD e fld calc expiration False w) =
      Inr (Some ([(Cached, V), (Flag, PBool False)] @
             (if truthy (temporal_triggers fld) \<and>
                 (attrs (self w) Expires = PNone \<or> t < now e)
              then [(Expires, x)] else []))) \<and>
    events_since w (snd (recalculate_FIELD e fld calc expiration False w)) = [CalcCalled] \<and>
    fst (recalculate_FIELD e fld calc expiration True w) = Inr None \<and>
    events_since w (snd (recalculate_FIELD e fld calc expiration True w)) =
      [DbUpdate (pk (self w)) [(Flag, PBool False)], CalcCalled,
       DbUpdate (pk (self w)) ([(Cached, V)] @
             (if truthy (temporal_triggers fld) \<and>
                 (attrs (self w) Expires = PNone \<or> t < now e)
              then [(Expires, x)] else []))]"
  proof (cases "truthy (temporal_triggers fld) \<and>
                (attrs (self w) Expires = PNone \<or> t < now e)")
    case True
    then have chk: "expires_check e (attrs (self w) Expires) = Inr True"
      using a by auto
    have r: "resolve_expiration e expiration = Inr x"
      using a True by simp
    have tt: "truthy (temporal_triggers fld)"
      using True by simp
    show ?thesis
      using True
        recalculate_new_expiration [where calc=calc and w=w and commit=True, OF calc tt chk r]
        recalculate_new_expiration [where calc=calc and w=w and commit=False, OF calc tt chk r]
      by (simp add: events_since_def)
  next
    case False
    then have "truthy (temporal_triggers fld) \<Longrightarrow>
                 expires_check e (attrs (self w) Expires) = Inr False"
      using a by auto
    from recalculate_keep_expiration
           [where calc=calc and w=w and commit=True and expiration=expiration, OF calc this]
         recalculate_keep_expiration
           [where calc=calc and w=w and commit=False and expiration=expiration, OF calc this]
         False
    show ?thesis
      by (simp add: events_since_def)
  qed
  then show "fst (recalculate_FIELD e fld calc expiration False w) =
      Inr (Some ([(Cached, V), (Flag, PBool False)] @
             (if truthy (temporal_triggers fld) \<and>
                 (attrs (self w) Expires = PNone \<or> t < now e)
              then [(Expires, x)] else [])))"
    and "events_since w (snd (recalculate_FIELD e fld calc expiration False w)) = [CalcCalled]"
    and "fst (recalculate_FIELD e fld calc expiration True w) = Inr None"
    and "events_since w (snd (recalculate_FIELD e fld calc expiration True w)) =
      [DbUpdate (pk (self w)) [(Flag, PBool False)], CalcCalled,
       DbUpdate (pk (self w)) ([(Cached, V)] @
             (if truthy (temporal_triggers fld) \<and>
                 (attrs (self w) Expires = PNone \<or> t < now e)
              then [(Expires, x)] else []))]"
    by simp_all
qed

text \<open>
  The invoice of price 21, its expiration 900 before the clock at 1000, under temporal
  triggers and the default offset 3600.
\<close>

theorem recalculate_uncommitted_returns_changes_witness:
  "fst (recalculate_FIELD demo_env (demo_field (PBool True)) demo_calc PNone False
          (demo_world (PInt 21) PNone (PBool True) (PDatetime 900))) =
     Inr (Some [(Cached, PInt 42), (Flag, PBool False), (Expires, PDatetime 4600)]) \<and>
   events_since (demo_world (PInt 21) PNone (PBool True) (PDatetime 900))
     (snd (recalculate_FIELD demo_env (demo_field (PBool True)) demo_calc PNone False
          (demo_world (PInt 21) PNone (PBool True) (PDatetime 900)))) = [CalcCalled] \<and>
   events_since (demo_world (PInt 21) PNone (PBool True) (PDatetime 900))
     (snd (recalculate_FIELD demo_env (demo_field (PBool True)) demo_calc PNone True
          (demo_world (PInt 21) PNone (PBool True) (PDatetime 900)))) =
     [DbUpdate 7 [(Flag, PBool False)], CalcCalled,
      DbUpdate 7 [(Cached, PInt 42), (Expires, PDatetime 4600)]]"
  using recalculate_uncommitted_returns_changes [of demo_env "demo_field (PBool True)"
      demo_calc PNone "demo_world (PInt 21) PNone (PBool True) (PDatetime 900)" "PInt 42"
      900 "PDatetime 4600"]
  by (simp add: demo_defs resolve_expiration_def getattr_settings_def)

section \<open>The temporal trigger on a read\<close>

text \<open>
  Claim C4. With temporal triggers on, the flag \<^verbatim>\<open>False\<close> and an expiration before the
  clock, a read does what a read of the same record with the flag \<^verbatim>\<open>True\<close> does: when
  the calculation method returns \<open>V\<close> on both instances, the two reads give the same
  result and the same final state, whether the flag is \<^verbatim>\<open>True\<close> on the instance only
  or in the row as well. The read calls the calculation method exactly once and none of
  its updates writes the flag \<^verbatim>\<open>True\<close>. When the new expiration resolves, it returns
  the fresh value \<open>V\<close>.
\<close>

theorem read_expired_like_flagged:
  assumes tt: "truthy (temporal_triggers fld)"
    and flag: "attrs (self w) Flag = PBool False"
    and exp: "attrs (self w) Expires = PDatetime t"
    and past: "t < now e"
  shows
   "(calc (self w) = Inr V \<and> calc (self (setattr Flag (PBool True) w)) = Inr V \<longrightarrow>
       get_FIELD e fld calc w = get_FIELD e fld calc (setattr Flag (PBool True) w) \<and>
       (\<forall>row. db w (pk (self w)) = Some row \<longrightarrow>
          get_FIELD e fld calc w =
          get_FIELD e fld calc
            ((setattr Flag (PBool True) w)
               \<lparr> db := (db w)(pk (self w) \<mapsto> row(Flag := PBool True)) \<rparr>))) \<and>
    calc_calls (snd (get_FIELD e fld calc w)) = calc_calls w + 1 \<and>
    list_all (\<lambda>ev. \<not> writes_flag_true ev) (events_since w (snd (get_FIELD e fld calc w))) \<and>
    (calc (self w) = Inr V \<and> resolve_expiration e PNone = Inr x \<longrightarrow>
       fst (get_FIELD e fld calc w) = Inr V \<and>
       attrs (self (snd (get_FIELD e fld calc w))) Flag = PBool False \<and>
       attrs (self (snd (get_FIELD e fld calc w))) Expires = x)"
proof (intro conjI impI allI)
  have g: "get_FIELD e fld calc w =
     (case recalculate_FIELD e fld calc PNone True w of
        (Inl x, w') \<Rightarrow> (Inl x, w')
      | (Inr r, w') \<Rightarrow> (Inr (attrs (self w') Cached), w'))"
    by (rule get_FIELD_expired [OF tt flag exp past])
  have chk: "expires_check e (attrs (self w) Expires) = Inr True"
    using exp past by simp
  show "calc_calls (snd (get_FIELD e fld calc w)) = calc_calls w + 1"
    by (simp only: g get_FIELD_after_recalculate recalculate_calc_calls)
  show "list_all (\<lambda>ev. \<not> writes_flag_true ev)
          (events_since w (snd (get_FIELD e fld calc w)))"
    by (simp only: g get_FIELD_after_recalculate recalculate_no_flag_true_write)
  {
    assume a: "calc (self w) = Inr V \<and> resolve_expiration e PNone = Inr x"
    then have c: "calc (self w) = Inr V" and r: "resolve_expiration e PNone = Inr x"
      by simp_all
    note eq = recalculate_new_expiration
                [where calc=calc and w=w and commit=True, OF c tt chk r]
    show "fst (get_FIELD e fld calc w) = Inr V"
      by (simp add: g eq)
    show "attrs (self (snd (get_FIELD e fld calc w))) Flag = PBool False"
      by (simp add: g eq)
    show "attrs (self (snd (get_FIELD e fld calc w))) Expires = x"
      by (simp add: g eq)
  }
  {
    assume a: "calc (self w) = Inr V \<and> calc (self (setattr Flag (PBool True) w)) = Inr V"
    then have c: "calc (self w) = Inr V"
      and c': "calc (self (setattr Flag (PBool True) w)) = Inr V"
      by simp_all
    let ?w' = "setattr Flag (PBool True) w"
    have flag': "attrs (self ?w') Flag = PBool True"
      by simp
    have chk': "expires_check e (attrs (self ?w') Expires) = Inr True"
      using exp past by simp
    have g': "get_FIELD e fld calc ?w' =
       (case recalculate_FIELD e fld calc PNone True ?w' of
          (Inl x, w') \<Rightarrow> (Inl x, w')
        | (Inr r, w') \<Rightarrow> (Inr (attrs (self w') Cached), w'))"
      by (rule get_FIELD_flagged [OF flag'])
    show "get_FIELD e fld calc w = get_FIELD e fld calc ?w'"
    proof (cases "resolve_expiration e PNone")
      case (Inl err)
      show ?thesis
        unfolding g g'
        by (simp add: recalculate_resolution_fails [where calc=calc and w=w, OF c tt chk Inl]
              recalculate_resolution_fails [where calc=calc and w="?w'", OF c' tt chk' Inl])
           (cases "db w (pk (self w))"; simp add: setattr_def queryset_update_def)
    next
      case (Inr y)
      show ?thesis
        unfolding g g'
        by (simp add: recalculate_new_expiration
                        [where calc=calc and w=w and commit=True, OF c tt chk Inr]
                      recalculate_new_expiration
                        [where calc=calc and w="?w'" and commit=True, OF c' tt chk' Inr])
           (cases "db w (pk (self w))"; simp add: setattr_def)
    qed
  }
  {
    fix row
    assume a: "calc (self w) = Inr V \<and> calc (self (setattr Flag (PBool True) w)) = Inr V"
      and row: "db w (pk (self w)) = Some row"
    then have c: "calc (self w) = Inr V"
      and c0: "calc (self (setattr Flag (PBool True) w)) = Inr V"
      by simp_all
    let ?w' = "(setattr Flag (PBool True) w)
                 \<lparr> db := (db w)(pk (self w) \<mapsto> row(Flag := PBool True)) \<rparr>"
    have c': "calc (self ?w') = Inr V"
      using c0 by simp
    have flag': "attrs (self ?w') Flag = PBool True"
      by simp
    have chk': "expires_check e (attrs (self ?w') Expires) = Inr True"
      using exp past by simp
    have g': "get_FIELD e fld calc ?w' =
       (case recalculate_FIELD e fld calc PNone True ?w' of
          (Inl x, w') \<Rightarrow> (Inl x, w')
        | (Inr r, w') \<Rightarrow> (Inr (attrs (self w') Cached), w'))"
      by (rule get_FIELD_flagged [OF flag'])
    show "get_FIELD e fld calc w = get_FIELD e fld calc ?w'"
    proof (cases "resolve_expiration e PNone")
      case (Inl err)
      show ?thesis
        unfolding g g'
        by (simp add: recalculate_resolution_fails [where calc=calc and w=w, OF c tt chk Inl]
              recalculate_resolution_fails [where calc=calc and w="?w'", OF c' tt chk' Inl])
           (cases "db w (pk (self w))"; simp add: setattr_def queryset_update_def row)
    next
      case (Inr y)
      show ?thesis
        unfolding g g'
        by (simp add: recalculate_new_expiration
                        [where calc=calc and w=w and commit=True, OF c tt chk Inr]
                      recalculate_new_expiration
                        [where calc=calc and w="?w'" and commit=True, OF c' tt chk' Inr])
           (cases "db w (pk (self w))"; simp add: setattr_def row)
    qed
  }
qed

text \<open>
  The invoice of price 21 with the stale value 3 cached, the flag clear and the expiration
  900 before the clock at 1000: the read returns 42 as the read of the flagged invoice
  does, after one calculation, and its first update clears the flag.
\<close>

theorem read_expired_like_flagged_witness:
  "get_FIELD demo_env (demo_field (PBool True)) demo_calc
     (demo_world (PInt 21) (PInt 3) (PBool False) (PDatetime 900)) =
   get_FIELD demo_env (demo_field (PBool True)) demo_calc
     (setattr Flag (PBool True)
        (demo_world (PInt 21) (PInt 3) (PBool False) (PDatetime 900))) \<and>
   fst (get_FIELD demo_env (demo_field (PBool True)) demo_calc
     (demo_world (PInt 21) (PInt 3) (PBool False) (PDatetime 900))) = Inr (PInt 42) \<and>
   calc_calls (snd (get_FIELD demo_env (demo_field (PBool True)) demo_calc
     (demo_world (PInt 21) (PInt 3) (PBool False) (PDatetime 900)))) = 1"
proof -
  let ?w = "demo_world (PInt 21) (PInt 3) (PBool False) (PDatetime 900)"
  have tt: "truthy (temporal_triggers (demo_field (PBool True)))"
    by (simp add: demo_defs)
  have flag: "attrs (self ?w) Flag = PBool False"
    by (simp add: demo_defs)
  have exp: "attrs (self ?w) Expires = PDatetime 900"
    by (simp add: demo_defs)
  have past: "900 < now demo_env"
    by (simp add: demo_defs)
  have c: "demo_calc (self ?w) = Inr (PInt 42) \<and>
           demo_calc (self (setattr Flag (PBool True) ?w)) = Inr (PInt 42)"
    by (simp add: demo_defs)
  have r: "demo_calc (self ?w) = Inr (PInt 42) \<and>
           resolve_expiration demo_env PNone = Inr (PDatetime 4600)"
    by (simp add: demo_defs resolve_expiration_def getattr_settings_def)
  have n: "calc_calls ?w = 0"
    by (simp add: demo_defs calc_calls_def)
  note th = read_expired_like_flagged
              [where calc=demo_calc and V="PInt 42" and x="PDatetime 4600",
               OF tt flag exp past]
  have 1: "get_FIELD demo_env (demo_field (PBool True)) demo_calc ?w =
           get_FIELD demo_env (demo_field (PBool True)) demo_calc
             (setattr Flag (PBool True) ?w)"
    using th c by blast
  have 2: "fst (get_FIELD demo_env (demo_field (PBool True)) demo_calc ?w) = Inr (PInt 42)"
    using th r by blast
  have 3: "calc_calls (snd (get_FIELD demo_env (demo_field (PBool True)) demo_calc ?w)) = 1"
    using conjunct1 [OF conjunct2 [OF th]] n by simp
  show ?thesis
    by (intro conjI 1 2 3)
qed

section \<open>Flagging and asynchronous dispatch\<close>

text \<open>
  Claim C5. On a stored record, flagging as stale with commit and with
  \<open>and_recalculate\<close> resolved to a truthy value calls
  \<^verbatim>\<open>trigger_cache_recalculation\<close> exactly once, whether the stored flag was already set
  (the change set is empty) or not; with a dictionary of Celery arguments the call hands
  exactly one job to the executor and the change set is returned. Without commit, or with
  \<open>and_recalculate\<close> resolved to a falsy value, there is no such call and no job.
\<close>

theorem flag_as_stale_dispatch:
  "(commit \<and> truthy (resolve_and_recalculate e a) \<and> db w (pk (self w)) = Some row \<longrightarrow>
      trigger_calls (snd (flag_FIELD_as_stale e fld a commit w)) = trigger_calls w + 1 \<and>
      (\<forall>kvs. celery_async_kwargs fld = PDict kvs \<longrightarrow>
         fst (flag_FIELD_as_stale e fld a commit w) =
           Inr (if truthy (row Flag) then [] else [(Flag, PBool True)]) \<and>
         filter is_Delay (events_since w (snd (flag_FIELD_as_stale e fld a commit w))) =
           [Delay (app_label (self w))
              (if proxy (self w) then proxy_for_object_name (self w) else object_name (self w))
              (pk (self w)) kvs])) \<and>
   (\<not> commit \<or> \<not> truthy (resolve_and_recalculate e a) \<longrightarrow>
      trigger_calls (snd (flag_FIELD_as_stale e fld a commit w)) = trigger_calls w \<and>
      filter is_Delay (events_since w (snd (flag_FIELD_as_stale e fld a commit w))) = [])"
proof (intro conjI impI)
  assume a: "commit \<and> truthy (resolve_and_recalculate e a) \<and> db w (pk (self w)) = Some row"
  then have row: "db w (pk (self w)) = Some row" by simp
  show "trigger_calls (snd (flag_FIELD_as_stale e fld a commit w)) = trigger_calls w + 1"
    using a
    by (cases "celery_async_kwargs fld")
       (simp_all add: flag_FIELD_as_stale_stored [OF row] trigger_calls_def Let_def
          trigger_cache_recalculation_def)
  show "\<forall>kvs. celery_async_kwargs fld = PDict kvs \<longrightarrow>
         fst (flag_FIELD_as_stale e fld a commit w) =
           Inr (if truthy (row Flag) then [] else [(Flag, PBool True)]) \<and>
         filter is_Delay (events_since w (snd (flag_FIELD_as_stale e fld a commit w))) =
           [Delay (app_label (self w))
              (if proxy (self w) then proxy_for_object_name (self w) else object_name (self w))
              (pk (self w)) kvs]"
    using a
    by (simp add: flag_FIELD_as_stale_stored [OF row] events_since_def Let_def
          trigger_cache_recalculation_def)
next
  assume a: "\<not> commit \<or> \<not> truthy (resolve_and_recalculate e a)"
  show "trigger_calls (snd (flag_FIELD_as_stale e fld a commit w)) = trigger_calls w"
    using a
    by (cases "db w (pk (self w))")
       (auto simp: flag_FIELD_as_stale_def trigger_calls_def Let_def)
  show "filter is_Delay (events_since w (snd (flag_FIELD_as_stale e fld a commit w))) = []"
    using a
    by (cases "db w (pk (self w))")
       (auto simp: flag_FIELD_as_stale_def events_since_def Let_def)
qed

text \<open>
  The invoice whose flag is already set, flagged again with the default argument in a
  project without \<^verbatim>\<open>CACHED_FIELD_EAGER_RECALCULATION\<close>: the change set is empty and one
  job is handed over.
\<close>

theorem flag_as_stale_dispatch_witness:
  "trigger_calls (snd (flag_FIELD_as_stale demo_env (demo_field (PBool False)) PNone True
      (demo_world (PInt 21) (PInt 3) (PBool True) PNone))) = 1 \<and>
   fst (flag_FIELD_as_stale demo_env (demo_field (PBool False)) PNone True
      (demo_world (PInt 21) (PInt 3) (PBool True) PNone)) = Inr [] \<and>
   filter is_Delay
     (events_since (demo_world (PInt 21) (PInt 3) (PBool True) PNone)
        (snd (flag_FIELD_as_stale demo_env (demo_field (PBool False)) PNone True
           (demo_world (PInt 21) (PInt 3) (PBool True) PNone)))) =
     [Delay ''shop'' ''Invoice'' 7 [(''countdown'', PInt 5)]]"
proof -
  let ?w = "demo_world (PInt 21) (PInt 3) (PBool True) PNone"
  let ?f = "demo_field (PBool False)"
  have h: "True \<and> truthy (resolve_and_recalculate demo_env PNone) \<and>
           db ?w (pk (self ?w)) = Some (demo_row (PInt 21) (PInt 3) (PBool True) PNone)"
    by (simp add: demo_defs resolve_and_recalculate_def)
  have k: "celery_async_kwargs ?f = PDict [(''countdown'', PInt 5)]"
    by (simp add: demo_defs)
  have n: "trigger_calls ?w = 0"
    by (simp add: demo_defs trigger_calls_def)
  have m: "app_label (self ?w) = ''shop'' \<and> object_name (self ?w) = ''Invoice'' \<and>
           \<not> proxy (self ?w) \<and> pk (self ?w) = 7 \<and>
           truthy (demo_row (PInt 21) (PInt 3) (PBool True) PNone Flag)"
    by (simp add: demo_defs)
  note th = conjunct1 [OF flag_as_stale_dispatch
              [where commit=True and e=demo_env and a=PNone and w="?w" and fld="?f"
                 and row="demo_row (PInt 21) (PInt 3) (PBool True) PNone"], THEN mp, OF h]
  have 1: "trigger_calls (snd (flag_FIELD_as_stale demo_env ?f PNone True ?w)) = 1"
    using conjunct1 [OF th] n by simp
  have 2: "fst (flag_FIELD_as_stale demo_env ?f PNone True ?w) = Inr [] \<and>
           filter is_Delay
             (events_since ?w (snd (flag_FIELD_as_stale demo_env ?f PNone True ?w))) =
             [Delay ''shop'' ''Invoice'' 7 [(''countdown'', PInt 5)]]"
    using conjunct2 [OF th, THEN spec, THEN mp, OF k] m by simp
  show ?thesis
    using 1 2 by blast
qed

text \<open>
  Claim C6. On a stored record, after a committed flagging with \<open>and_recalculate\<close>
  \<^verbatim>\<open>False\<close>, a second flagging with \<open>and_recalculate\<close> \<^verbatim>\<open>False\<close> reads the flag from
  the table, returns the empty change set and changes neither the instance nor the table:
  the stored flag stays truthy (it is \<^verbatim>\<open>True\<close> when the first call had to set it), and
  so does the instance's flag when instance and row agreed on it at the start. The second
  call issues the read and, with commit, an update with no values.
\<close>

theorem flag_as_stale_twice:
  assumes row: "db w (pk (self w)) = Some row"
  shows
   "(let r1 = flag_FIELD_as_stale e fld (PBool False) True w;
         r2 = flag_FIELD_as_stale e fld (PBool False) commit (snd r1)
     in fst r1 = Inr (if truthy (row Flag) then [] else [(Flag, PBool True)]) \<and>
        fst r2 = Inr [] \<and>
        self (snd r2) = self (snd r1) \<and>
        db (snd r2) = db (snd r1) \<and>
        db (snd r2) (pk (self w)) =
          Some (if truthy (row Flag) then row else row(Flag := PBool True)) \<and>
        (\<exists>row'. db (snd r2) (pk (self w)) = Some row' \<and> truthy (row' Flag)) \<and>
        (attrs (self w) Flag = row Flag \<longrightarrow> truthy (attrs (self (snd r2)) Flag)) \<and>
        events_since (snd r1) (snd r2) =
          DbRead (pk (self w)) Flag # (if commit then [DbUpdate (pk (self w)) []] else []))"
proof -
  define r1 where "r1 = flag_FIELD_as_stale e fld (PBool False) True w"
  have r1: "r1 = (Inr (if truthy (row Flag) then [] else [(Flag, PBool True)]),
      queryset_update (pk (self w)) (if truthy (row Flag) then [] else [(Flag, PBool True)])
        (if truthy (row Flag) then w\<lparr> trace := trace w @ [DbRead (pk (self w)) Flag] \<rparr>
         else setattr Flag (PBool True)
                (w\<lparr> trace := trace w @ [DbRead (pk (self w)) Flag] \<rparr>)))"
    unfolding r1_def
    by (simp add: flag_FIELD_as_stale_stored [OF row] resolve_and_recalculate_def Let_def)
  have pk1: "pk (self (snd r1)) = pk (self w)"
    by (simp add: r1)
  have row1: "db (snd r1) (pk (self (snd r1))) =
                Some (if truthy (row Flag) then row else row(Flag := PBool True))"
    by (simp add: r1 row)
  have t: "truthy ((if truthy (row Flag) then row else row(Flag := PBool True)) Flag)"
    by simp
  have m: "attrs (self w) Flag = row Flag \<longrightarrow> truthy (attrs (self (snd r1)) Flag)"
    by (simp add: r1)
  show ?thesis
    unfolding r1_def [symmetric] Let_def
    using t m
    by (simp add: flag_FIELD_as_stale_stored [OF row1] resolve_and_recalculate_def Let_def
          pk1 events_since_def queryset_update_def)
       (simp add: r1 row)
qed

text \<open>The invoice with the flag clear, flagged twice.\<close>

theorem flag_as_stale_twice_witness:
  "fst (flag_FIELD_as_stale demo_env (demo_field (PBool False)) (PBool False) True
          (demo_world (PInt 21) (PInt 3) (PBool False) PNone)) = Inr [(Flag, PBool True)] \<and>
   fst (flag_FIELD_as_stale demo_env (demo_field (PBool False)) (PBool False) True
          (snd (flag_FIELD_as_stale demo_env (demo_field (PBool False)) (PBool False) True
             (demo_world (PInt 21) (PInt 3) (PBool False) PNone)))) = Inr [] \<and>
   db (snd (flag_FIELD_as_stale demo_env (demo_field (PBool False)) (PBool False) True
          (snd (flag_FIELD_as_stale demo_env (demo_field (PBool False)) (PBool False) True
             (demo_world (PInt 21) (PInt 3) (PBool False) PNone))))) 7 =
     Some (demo_row (PInt 21) (PInt 3) (PBool True) PNone)"
proof -
  let ?w = "demo_world (PInt 21) (PInt 3) (PBool False) PNone"
  have row: "db ?w (pk (self ?w)) = Some (demo_row (PInt 21) (PInt 3) (PBool False) PNone)"
    by (simp add: demo_defs)
  have m: "pk (self ?w) = 7 \<and>
           \<not> truthy (demo_row (PInt 21) (PInt 3) (PBool False) PNone Flag) \<and>
           (demo_row (PInt 21) (PInt 3) (PBool False) PNone)(Flag := PBool True) =
             demo_row (PInt 21) (PInt 3) (PBool True) PNone"
    by (auto simp: demo_defs fun_eq_iff)
  note th = flag_as_stale_twice
              [OF row, of demo_env "demo_field (PBool False)" True, unfolded Let_def]
  have 1: "fst (flag_FIELD_as_stale demo_env (demo_field (PBool False)) (PBool False) True ?w) =
             Inr [(Flag, PBool True)]"
    using th [THEN conjunct1] m by simp
  have 2: "fst (flag_FIELD_as_stale demo_env (demo_field (PBool False)) (PBool False) True
             (snd (flag_FIELD_as_stale demo_env (demo_field (PBool False)) (PBool False) True
                ?w))) = Inr []"
    by (rule th [THEN conjunct2, THEN conjunct1])
  have 3: "db (snd (flag_FIELD_as_stale demo_env (demo_field (PBool False)) (PBool False) True
             (snd (flag_FIELD_as_stale demo_env (demo_field (PBool False)) (PBool False) True
                ?w)))) 7 = Some (demo_row (PInt 21) (PInt 3) (PBool True) PNone)"
    using th [THEN conjunct2, THEN conjunct2, THEN conjunct2, THEN conjunct2, THEN conjunct1]
      m by simp
  show ?thesis
    by (intro conjI 1 2 3)
qed

section \<open>The expiration set by a recalculation\<close>

text \<open>
  Claim C7. In a recalculation with temporal triggers on whose calculation returns:
  when the instance's expiration is \<^verbatim>\<open>None\<close> or before the clock, the new expiration
  starts from the explicit argument when that is truthy and from the project's default
  otherwise, an offset is added to the clock, and the result \<open>x\<close> is assigned to the
  instance and is an entry of the change set: of the final update and of the row with
  commit, of the returned set without. When the instance's expiration is a
  \<^verbatim>\<open>datetime\<close> not before the clock, the expiration stays on the instance and is no
  entry of the change set.
\<close>

theorem recalculate_expiration_policy:
  assumes tt: "truthy (temporal_triggers fld)"
    and calc: "calc (self w) = Inr V"
  shows
   "((attrs (self w) Expires = PNone \<or>
       (\<exists>t. attrs (self w) Expires = PDatetime t \<and> t < now e)) \<and>
      (truthy expiration \<longrightarrow> chosen = expiration) \<and>
      (\<not> truthy expiration \<longrightarrow>
         CACHED_FIELD_DEFAULT_EXPIRATION (settings e) = Some chosen) \<and>
      is_expiration chosen \<and>
      x = (case chosen of PDelta d \<Rightarrow> PDatetime (now e + d) | _ \<Rightarrow> chosen) \<longrightarrow>
      attrs (self (snd (recalculate_FIELD e fld calc expiration commit w))) Expires = x \<and>
      (if commit then
         fst (recalculate_FIELD e fld calc expiration commit w) = Inr None \<and>
         events_since w (snd (recalculate_FIELD e fld calc expiration commit w)) =
           [DbUpdate (pk (self w)) [(Flag, PBool False)], CalcCalled,
            DbUpdate (pk (self w)) [(Cached, V), (Expires, x)]] \<and>
         (\<forall>row. db w (pk (self w)) = Some row \<longrightarrow>
            db (snd (recalculate_FIELD e fld calc expiration commit w)) (pk (self w)) =
              Some (row(Flag := PBool False, Cached := V, Expires := x)))
       else
         fst (recalculate_FIELD e fld calc expiration commit w) =
           Inr (Some [(Cached, V), (Flag, PBool False), (Expires, x)]))) \<and>
    ((\<exists>t. attrs (self w) Expires = PDatetime t \<and> now e \<le> t) \<longrightarrow>
      attrs (self (snd (recalculate_FIELD e fld calc expiration commit w))) Expires =
        attrs (self w) Expires \<and>
      (if commit then
         fst (recalculate_FIELD e fld calc expiration commit w) = Inr None \<and>
         events_since w (snd (recalculate_FIELD e fld calc expiration commit w)) =
           [DbUpdate (pk (self w)) [(Flag, PBool False)], CalcCalled,
            DbUpdate (pk (self w)) [(Cached, V)]] \<and>
         (\<forall>row. db w (pk (self w)) = Some row \<longrightarrow>
            db (snd (recalculate_FIELD e fld calc expiration commit w)) (pk (self w)) =
              Some (row(Flag := PBool False, Cached := V)))
       else
         fst (recalculate_FIELD e fld calc expiration commit w) =
           Inr (Some [(Cached, V), (Flag, PBool False)])))"
proof (intro conjI impI)
  assume a: "(attrs (self w) Expires = PNone \<or>
       (\<exists>t. attrs (self w) Expires = PDatetime t \<and> t < now e)) \<and>
      (truthy expiration \<longrightarrow> chosen = expiration) \<and>
      (\<not> truthy expiration \<longrightarrow>
         CACHED_FIELD_DEFAULT_EXPIRATION (settings e) = Some chosen) \<and>
      is_expiration chosen \<and>
      x = (case chosen of PDelta d \<Rightarrow> PDatetime (now e + d) | _ \<Rightarrow> chosen)"
  then have chk: "expires_check e (attrs (self w) Expires) = Inr True"
    by auto
  have r: "resolve_expiration e expiration = Inr x"
    using a resolve_expiration_chosen [of expiration chosen e] by simp
  note eq = recalculate_new_expiration
              [where calc=calc and w=w and commit=commit, OF calc tt chk r]
    recalculate_new_expiration [where calc=calc and w=w and commit=True, OF calc tt chk r]
    recalculate_new_expiration [where calc=calc and w=w and commit=False, OF calc tt chk r]
  show "attrs (self (snd (recalculate_FIELD e fld calc expiration commit w))) Expires = x"
    by (simp add: eq)
  show "if commit then
         fst (recalculate_FIELD e fld calc expiration commit w) = Inr None \<and>
         events_since w (snd (recalculate_FIELD e fld calc expiration commit w)) =
           [DbUpdate (pk (self w)) [(Flag, PBool False)], CalcCalled,
            DbUpdate (pk (self w)) [(Cached, V), (Expires, x)]] \<and>
         (\<forall>row. db w (pk (self w)) = Some row \<longrightarrow>
            db (snd (recalculate_FIELD e fld calc expiration commit w)) (pk (self w)) =
              Some (row(Flag := PBool False, Cached := V, Expires := x)))
       else
         fst (recalculate_FIELD e fld calc expiration commit w) =
           Inr (Some [(Cached, V), (Flag, PBool False), (Expires, x)])"
    by (simp add: eq events_since_def)
next
  assume "\<exists>t. attrs (self w) Expires = PDatetime t \<and> now e \<le> t"
  then have "truthy (temporal_triggers fld) \<Longrightarrow>
               expires_check e (attrs (self w) Expires) = Inr False"
    by auto
  note eq = recalculate_keep_expiration
      [where calc=calc and w=w and commit=commit and expiration=expiration, OF calc this]
    recalculate_keep_expiration
      [where calc=calc and w=w and commit=True and expiration=expiration, OF calc this]
    recalculate_keep_expiration
      [where calc=calc and w=w and commit=False and expiration=expiration, OF calc this]
  show "attrs (self (snd (recalculate_FIELD e fld calc expiration commit w))) Expires =
        attrs (self w) Expires"
    by (simp add: eq)
  show "if commit then
         fst (recalculate_FIELD e fld calc expiration commit w) = Inr None \<and>
         events_since w (snd (recalculate_FIELD e fld calc expiration commit w)) =
           [DbUpdate (pk (self w)) [(Flag, PBool False)], CalcCalled,
            DbUpdate (pk (self w)) [(Cached, V)]] \<and>
         (\<forall>row. db w (pk (self w)) = Some row \<longrightarrow>
            db (snd (recalculate_FIELD e fld calc expiration commit w)) (pk (self w)) =
              Some (row(Flag := PBool False, Cached := V)))
       else
         fst (recalculate_FIELD e fld calc expiration commit w) =
           Inr (Some [(Cached, V), (Flag, PBool False)])"
    by (simp add: eq events_since_def)
qed

text \<open>
  The invoice of price 21 without an expiration, recalculated with commit and no explicit
  expiration at time 1000 under the default offset 3600: the new expiration is 4600.
\<close>

theorem recalculate_expiration_policy_witness:
  "attrs (self (snd (recalculate_FIELD demo_env (demo_field (PBool True)) demo_calc PNone True
      (demo_world (PInt 21) PNone (PBool True) PNone)))) Expires = PDatetime 4600 \<and>
   events_since (demo_world (PInt 21) PNone (PBool True) PNone)
     (snd (recalculate_FIELD demo_env (demo_field (PBool True)) demo_calc PNone True
       (demo_world (PInt 21) PNone (PBool True) PNone))) =
     [DbUpdate 7 [(Flag, PBool False)], CalcCalled,
      DbUpdate 7 [(Cached, PInt 42), (Expires, PDatetime 4600)]]"
proof -
  let ?w = "demo_world (PInt 21) PNone (PBool True) PNone"
  let ?f = "demo_field (PBool True)"
  have tt: "truthy (temporal_triggers ?f)"
    by (simp add: demo_defs)
  have calc: "demo_calc (self ?w) = Inr (PInt 42)"
    by (simp add: demo_defs)
  have h: "(attrs (self ?w) Expires = PNone \<or>
             (\<exists>t. attrs (self ?w) Expires = PDatetime t \<and> t < now demo_env)) \<and>
           (truthy PNone \<longrightarrow> PDelta 3600 = PNone) \<and>
           (\<not> truthy PNone \<longrightarrow>
              CACHED_FIELD_DEFAULT_EXPIRATION (settings demo_env) = Some (PDelta 3600)) \<and>
           is_expiration (PDelta 3600) \<and>
           PDatetime 4600 =
             (case PDelta 3600 of PDelta d \<Rightarrow> PDatetime (now demo_env + d)
              | _ \<Rightarrow> PDelta 3600)"
    by (simp add: demo_defs)
  have m: "pk (self ?w) = 7"
    by (simp add: demo_defs)
  note th = recalculate_expiration_policy
              [where calc=demo_calc and w="?w" and commit=True and e=demo_env
                 and expiration=PNone and chosen="PDelta 3600" and x="PDatetime 4600",
               OF tt calc, THEN conjunct1, THEN mp, OF h]
  show ?thesis
    using th m by simp
qed

section \<open>Setting the expiration\<close>

text \<open>
  Claim C9. \<^verbatim>\<open>_expire_FIELD_after\<close> resolves the expiration from the explicit argument
  when that is truthy and from the project's default otherwise, adding an offset to the
  clock; it assigns the result \<open>x\<close> to the instance's expiration and issues one update
  of the record's row whose only entry is the expiration. Whatever the outcome, every
  other slot of the instance and of every row, the flag and the cached value among them,
  is as before, and the outcome depends on the settings, the clock and the argument
  only: no slot is read.
\<close>

theorem expire_after_touches_expiration_only:
  "(\<forall>s. s \<noteq> Expires \<longrightarrow>
      attrs (self (snd (expire_FIELD_after e fld expiration w))) s = attrs (self w) s) \<and>
   (\<forall>k row. db w k = Some row \<longrightarrow>
      (\<exists>row'. db (snd (expire_FIELD_after e fld expiration w)) k = Some row' \<and>
              (\<forall>s. s \<noteq> Expires \<longrightarrow> row' s = row s))) \<and>
   fst (expire_FIELD_after e fld expiration w) =
     (case resolve_expiration e expiration of Inl err \<Rightarrow> Inl err | Inr y \<Rightarrow> Inr ()) \<and>
   ((truthy expiration \<longrightarrow> chosen = expiration) \<and>
    (\<not> truthy expiration \<longrightarrow> CACHED_FIELD_DEFAULT_EXPIRATION (settings e) = Some chosen) \<and>
    is_expiration chosen \<and>
    x = (case chosen of PDelta d \<Rightarrow> PDatetime (now e + d) | _ \<Rightarrow> chosen) \<longrightarrow>
    expire_FIELD_after e fld expiration w =
      (Inr (),
       w\<lparr> self := (self w)\<lparr> attrs := (attrs (self w))(Expires := x) \<rparr>,
          db := (case db w (pk (self w)) of None \<Rightarrow> db w
                 | Some row \<Rightarrow> (db w)(pk (self w) \<mapsto> row(Expires := x))),
          trace := trace w @ [DbUpdate (pk (self w)) [(Expires, x)]] \<rparr>))"
proof (intro conjI impI allI)
  fix s :: slot
  assume "s \<noteq> Expires"
  then show "attrs (self (snd (expire_FIELD_after e fld expiration w))) s = attrs (self w) s"
    by (cases "resolve_expiration e expiration") (simp_all add: expire_FIELD_after_def)
next
  fix k row
  assume "db w k = Some row"
  then show "\<exists>row'. db (snd (expire_FIELD_after e fld expiration w)) k = Some row' \<and>
              (\<forall>s. s \<noteq> Expires \<longrightarrow> row' s = row s)"
    by (cases "resolve_expiration e expiration"; cases "db w (pk (self w))")
       (auto simp: expire_FIELD_after_def)
next
  show "fst (expire_FIELD_after e fld expiration w) =
     (case resolve_expiration e expiration of Inl err \<Rightarrow> Inl err | Inr y \<Rightarrow> Inr ())"
    by (cases "resolve_expiration e expiration") (simp_all add: expire_FIELD_after_def)
next
  assume a: "(truthy expiration \<longrightarrow> chosen = expiration) \<and>
    (\<not> truthy expiration \<longrightarrow> CACHED_FIELD_DEFAULT_EXPIRATION (settings e) = Some chosen) \<and>
    is_expiration chosen \<and>
    x = (case chosen of PDelta d \<Rightarrow> PDatetime (now e + d) | _ \<Rightarrow> chosen)"
  then have "resolve_expiration e expiration = Inr x"
    using resolve_expiration_chosen [of expiration chosen e] by simp
  then show "expire_FIELD_after e fld expiration w =
      (Inr (),
       w\<lparr> self := (self w)\<lparr> attrs := (attrs (self w))(Expires := x) \<rparr>,
          db := (case db w (pk (self w)) of None \<Rightarrow> db w
                 | Some row \<Rightarrow> (db w)(pk (self w) \<mapsto> row(Expires := x))),
          trace := trace w @ [DbUpdate (pk (self w)) [(Expires, x)]] \<rparr>)"
    by (cases "db w (pk (self w))")
       (simp_all add: expire_FIELD_after_def queryset_update_def setattr_def)
qed

text \<open>
  The invoice with the flag set and the stale value 3: an explicit offset of 60 at time
  1000 gives the expiration 1060 and one update of that slot.
\<close>

theorem expire_after_touches_expiration_only_witness:
  "fst (expire_FIELD_after demo_env (demo_field (PBool True)) (PDelta 60)
          (demo_world (PInt 21) (PInt 3) (PBool True) PNone)) = Inr () \<and>
   trace (snd (expire_FIELD_after demo_env (demo_field (PBool True)) (PDelta 60)
          (demo_world (PInt 21) (PInt 3) (PBool True) PNone))) =
     [DbUpdate 7 [(Expires, PDatetime 1060)]] \<and>
   attrs (self (snd (expire_FIELD_after demo_env (demo_field (PBool True)) (PDelta 60)
          (demo_world (PInt 21) (PInt 3) (PBool True) PNone)))) Expires = PDatetime 1060"
proof -
  let ?w = "demo_world (PInt 21) (PInt 3) (PBool True) PNone"
  have h: "(truthy (PDelta 60) \<longrightarrow> PDelta 60 = PDelta 60) \<and>
    (\<not> truthy (PDelta 60) \<longrightarrow>
       CACHED_FIELD_DEFAULT_EXPIRATION (settings demo_env) = Some (PDelta 60)) \<and>
    is_expiration (PDelta 60) \<and>
    PDatetime 1060 =
      (case PDelta 60 of PDelta d \<Rightarrow> PDatetime (now demo_env + d) | _ \<Rightarrow> PDelta 60)"
    by (simp add: demo_defs)
  have m: "pk (self ?w) = 7 \<and> trace ?w = []"
    by (simp add: demo_defs)
  note th = expire_after_touches_expiration_only
              [where e=demo_env and expiration="PDelta 60" and chosen="PDelta 60"
                 and x="PDatetime 1060" and w="?w" and fld="demo_field (PBool True)",
               THEN conjunct2, THEN conjunct2, THEN conjunct2, THEN mp, OF h]
  show ?thesis
    using m by (simp add: th)
qed

section \<open>Reading a fresh attribute\<close>

text \<open>
  Claim C10. On an instance whose flag is \<^verbatim>\<open>False\<close> and, where temporal triggers are
  on, whose expiration is \<^verbatim>\<open>None\<close> or not before the clock, a read returns the cached
  value and leaves the whole state as it was: no calculation, no update, no event. The
  cached value is arbitrary, \<^verbatim>\<open>None\<close> included.
\<close>

theorem get_FIELD_fresh_returns_cached:
  assumes "attrs (self w) Flag = PBool False"
    and "truthy (temporal_triggers fld) \<Longrightarrow>
           attrs (self w) Expires = PNone \<or>
           (\<exists>t. attrs (self w) Expires = PDatetime t \<and> \<not> t < now e)"
  shows "get_FIELD e fld calc w = (Inr (attrs (self w) Cached), w)"
  using assms by (auto simp: get_FIELD_def Let_def)

text \<open>A cached \<^verbatim>\<open>None\<close>, the flag clear and the expiration at the clock's reading.\<close>

theorem get_FIELD_fresh_returns_cached_witness:
  "get_FIELD demo_env (demo_field (PBool True)) demo_calc
     (demo_world (PInt 21) PNone (PBool False) (PDatetime 1000)) =
   (Inr PNone, demo_world (PInt 21) PNone (PBool False) (PDatetime 1000))"
  using get_FIELD_fresh_returns_cached [of
      "demo_world (PInt 21) PNone (PBool False) (PDatetime 1000)"
      "demo_field (PBool True)" demo_env demo_calc]
  by (simp add: demo_defs)

section \<open>Constructing the field\<close>

text \<open>
  Claim C8. A field constructed without a temporal-triggers request falls back to the
  project's default expiration. In a project whose settings do not define
  \<^verbatim>\<open>CACHED_FIELD_DEFAULT_EXPIRATION\<close> (and do define the Celery arguments), the
  construction \<^verbatim>\<open>CachedIntegerField()\<close> does not yield a field with temporal triggers
  off: \<^verbatim>\<open>getattr\<close> at line 158 has no default and raises \<^verbatim>\<open>AttributeError\<close>.
\<close>

theorem init_without_default_expiration_raises:
  "CachedFieldMixin_init
     \<lparr> CACHED_FIELD_DEFAULT_EXPIRATION = None,
       CACHED_FIELD_EAGER_RECALCULATION = None,
       CACHED_FIELD_CELERY_ASYNC_KWARGS = Some (PDict [(''countdown'', PInt 5)]) \<rparr>
     ''total'' None None None (PBool False) False False None PNone = Inl AttributeError"
  by (simp add: CachedFieldMixin_init_def getattr_settings_def)

text \<open>
  Where the project defines both settings, construction without a request succeeds and
  the field's \<open>temporal_triggers\<close> is the setting's value: on when it is truthy, off when
  it is \<^verbatim>\<open>None\<close> or a zero offset.
\<close>

lemma init_falls_back_to_setting:
  assumes "\<not> truthy tt"
    and "CACHED_FIELD_DEFAULT_EXPIRATION conf = Some d"
    and "truthy ck \<or> CACHED_FIELD_CELERY_ASYNC_KWARGS conf \<noteq> None"
  shows "\<exists>f. CachedFieldMixin_init conf nm cm cf rn tt it ir ef ck = Inr f \<and>
             temporal_triggers f = d"
  using assms
  by (auto simp: CachedFieldMixin_init_def getattr_settings_def split: option.splits)

text \<open>Where the project does not define the default, it raises for every such call.\<close>

lemma init_unset_raises:
  assumes "\<not> truthy tt"
    and "CACHED_FIELD_DEFAULT_EXPIRATION conf = None"
  shows "CachedFieldMixin_init conf nm cm cf rn tt it ir ef ck = Inl AttributeError"
  using assms
  by (simp add: CachedFieldMixin_init_def getattr_settings_def)

text \<open>
  An explicit request is kept without a look at the settings, so a field with temporal
  triggers on can exist in a project without a default expiration.
\<close>

lemma init_explicit_request:
  assumes "truthy tt"
    and "truthy ck \<or> CACHED_FIELD_CELERY_ASYNC_KWARGS conf \<noteq> None"
  shows "\<exists>f. CachedFieldMixin_init conf nm cm cf rn tt it ir ef ck = Inr f \<and>
             temporal_triggers f = tt"
  using assms
  by (auto simp: CachedFieldMixin_init_def getattr_settings_def split: option.splits)

text \<open>
  Line 77 holds the same \<^verbatim>\<open>getattr\<close> with no default. For such a field in a project
  that defines no default expiration, the first read of a new record (flag set, no
  expiration) calls the calculation, then raises \<^verbatim>\<open>AttributeError\<close>; the row has
  the flag cleared and not the value.
\<close>

lemma read_without_default_expiration_raises:
  "get_FIELD
     \<lparr> settings = \<lparr> CACHED_FIELD_DEFAULT_EXPIRATION = None,
                    CACHED_FIELD_EAGER_RECALCULATION = None,
                    CACHED_FIELD_CELERY_ASYNC_KWARGS = None \<rparr>, now = 1000 \<rparr>
     (demo_field (PBool True)) demo_calc (demo_world (PInt 21) PNone (PBool True) PNone) =
   (Inl AttributeError,
    \<lparr> self = \<lparr> pk = 7, attrs = demo_row (PInt 21) (PInt 42) (PBool False) PNone,
                app_label = ''shop'', object_name = ''Invoice'', proxy = False,
                proxy_for_object_name = [] \<rparr>,
      db = Map.empty(7 \<mapsto> demo_row (PInt 21) PNone (PBool False) PNone),
      trace = [DbUpdate 7 [(Flag, PBool False)], CalcCalled] \<rparr>)"
  by (simp add: get_FIELD_def recalculate_FIELD_def recalculate_expiration_def
        resolve_expiration_def getattr_settings_def set_FIELD_def queryset_update_def
        setattr_def Let_def demo_defs fun_upd_twist)

section \<open>The default slot names\<close>

text \<open>
  Without overrides the three slot names differ for every attribute name, which is what
  the slots \<open>Cached\<close>, \<open>Flag\<close> and \<open>Expires\<close> stand on.
\<close>

lemma default_slot_names_distinct:
  assumes "cached_field_name' f = None"
    and "recalculation_needed_field_name' f = None"
    and "expiration_field_name' f = None"
  shows "distinct [cached_field_name f, recalculation_needed_field_name f,
                   expiration_field_name f]"
proof -
  have "length (cached_field_name f) = length (name f) + 7"
    and "length (recalculation_needed_field_name f) = length (name f) + 21"
    and "length (expiration_field_name f) = length (name f) + 14"
    using assms
    by (simp_all add: cached_field_name_def recalculation_needed_field_name_def
          expiration_field_name_def)
  then show ?thesis
    by (metis add_left_cancel distinct_length_2_or_more distinct_singleton
          numeral_eq_iff semiring_norm(88) semiring_norm(89) semiring_norm(90))
qed

end
